theory Spec2Isabelle
  imports Complex_Main
begin

section \<open>Markov-chain patient simulation: the model of MarkovModelClasses.py\<close>

text \<open>
  The classes of \<^verbatim>\<open>MarkovModelClasses.py\<close> become records, their methods functions
  that take the object and return it updated. A method that can raise returns the
  object as the exception leaves it, paired with the exception (\<open>None\<close>: it returned).

  Python's floats are read as reals. The only floats a patient computes are
  \<^verbatim>\<open>time_step + 0.5\<close> for a loop counter \<^verbatim>\<open>time_step\<close>; such a half-integer is exact
  in a float as long as the counter stays below \<open>2 ^ 52\<close>. The means of the cohort's
  outcomes are rounded by Python and exact here.
\<close>

subsection \<open>Health states and exceptions\<close>

text \<open>
  Modelled from the spec: the enumeration \<^verbatim>\<open>HealthState\<close> of \<^verbatim>\<open>InputData\<close> is not among
  the sources. The code names three of its members, the state a patient starts in, the
  event state and the terminal state; \<open>Other i\<close> stands for any further member. The
  integer \<^verbatim>\<open>value\<close> of a member and the lookup \<^verbatim>\<open>HealthState(index)\<close> are parameters of
  the model (see \<open>externals\<close>).
\<close>

datatype HealthState = CD4_200to500 | AIDS | HIV_DEATH | Other nat

datatype py_error = IndexError | ValueError | ZeroDivisionError | TypeError | LibraryError

subsection \<open>PatientStateMonitor\<close>

record PatientStateMonitor =
  currentState :: HealthState
  survivalTime :: "real option"
  timeToAIDS :: "real option"
  ifDevelopedAIDS :: bool

definition PatientStateMonitor_init :: PatientStateMonitor where
  "PatientStateMonitor_init =
     \<lparr>currentState = CD4_200to500, survivalTime = None, timeToAIDS = None,
      ifDevelopedAIDS = False\<rparr>"

text \<open>
  \<^verbatim>\<open>update\<close>: the early return, then the three statements in the order of the source; each
  reads the monitor the statements before it have left.
\<close>

definition update :: "PatientStateMonitor \<Rightarrow> int \<Rightarrow> HealthState \<Rightarrow> PatientStateMonitor" where
  "update self time_step new_state =
     (if currentState self = HIV_DEATH then self
      else
        let self1 = (if new_state = HIV_DEATH
                     then self\<lparr>survivalTime := Some (of_int time_step + 1/2)\<rparr>
                     else self);
            self2 = (if currentState self1 \<noteq> AIDS \<and> new_state = AIDS
                     then self1\<lparr>ifDevelopedAIDS := True,
                                timeToAIDS := Some (of_int time_step + 1/2)\<rparr>
                     else self1)
        in self2\<lparr>currentState := new_state\<rparr>)"

definition get_if_alive :: "PatientStateMonitor \<Rightarrow> bool" where
  "get_if_alive self = (if currentState self \<noteq> HIV_DEATH then True else False)"

text \<open>A monitor after a sequence of \<^verbatim>\<open>update\<close> calls, each a time step and a new state.\<close>

definition updates :: "PatientStateMonitor \<Rightarrow> (int \<times> HealthState) list \<Rightarrow> PatientStateMonitor" where
  "updates self calls = foldl (\<lambda>m (t, s). update m t s) self calls"

subsection \<open>The external library and the enumeration's values\<close>

text \<open>
  What the code calls and the sources do not hold, as parameters: the generator
  \<^verbatim>\<open>RVGs.RNG(seed=id)\<close>; \<^verbatim>\<open>RVGs.Empirical(probabilities=row).sample(rng=rng)\<close>, which
  returns the generator as the call leaves it and either an index or an exception; the
  \<^verbatim>\<open>value\<close> of a health state; and \<^verbatim>\<open>HealthState(index)\<close>, which raises for an index that
  is no member's value. \<open>'r\<close> is the state of a generator.
\<close>

record 'r externals =
  RNG :: "int \<Rightarrow> 'r"
  Empirical_sample :: "real list \<Rightarrow> 'r \<Rightarrow> 'r \<times> (py_error + int)"
  HealthState_value :: "HealthState \<Rightarrow> int"
  HealthState_call :: "int \<Rightarrow> py_error + HealthState"

text \<open>Python's \<^verbatim>\<open>xs[i]\<close> on a list: a negative index counts from the end.\<close>

definition py_getitem :: "'a list \<Rightarrow> int \<Rightarrow> py_error + 'a" where
  "py_getitem xs i =
     (if 0 \<le> i \<and> i < int (length xs) then Inr (xs ! nat i)
      else if i < 0 \<and> - int (length xs) \<le> i then Inr (xs ! nat (int (length xs) + i))
      else Inl IndexError)"

subsection \<open>Patient\<close>

record 'r Patient =
  id_Patient :: int
  rng :: 'r
  tranProbMatrix :: "real list list"
  stateMonitor :: PatientStateMonitor

definition Patient_init :: "'r externals \<Rightarrow> int \<Rightarrow> real list list \<Rightarrow> 'r Patient" where
  "Patient_init ext ident transition_matrix =
     \<lparr>id_Patient = ident, rng = RNG ext ident, tranProbMatrix = transition_matrix,
      stateMonitor = PatientStateMonitor_init\<rparr>"

text \<open>
  The body of the loop of \<^verbatim>\<open>Patient.simulate\<close> at time step \<open>k\<close>: the row of the current
  state, the sample, the new state, the update. An exception leaves the patient as the
  statements before it have changed it.
\<close>

definition simulate_body :: "'r externals \<Rightarrow> 'r Patient \<Rightarrow> int \<Rightarrow> 'r Patient \<times> py_error option" where
  "simulate_body ext self k =
     (case py_getitem (tranProbMatrix self)
             (HealthState_value ext (currentState (stateMonitor self))) of
        Inl e \<Rightarrow> (self, Some e)
      | Inr trans_probs \<Rightarrow>
          (case Empirical_sample ext trans_probs (rng self) of
             (r, Inl e) \<Rightarrow> (self\<lparr>rng := r\<rparr>, Some e)
           | (r, Inr new_state_index) \<Rightarrow>
               (case HealthState_call ext new_state_index of
                  Inl e \<Rightarrow> (self\<lparr>rng := r\<rparr>, Some e)
                | Inr new_state \<Rightarrow>
                    (self\<lparr>rng := r,
                          stateMonitor := update (stateMonitor self) k new_state\<rparr>, None))))"

function simulate_loop ::
  "'r externals \<Rightarrow> 'r Patient \<Rightarrow> int \<Rightarrow> int \<Rightarrow> 'r Patient \<times> py_error option" where
  "simulate_loop ext self k n_time_steps =
     (if get_if_alive (stateMonitor self) \<and> k < n_time_steps then
        (case simulate_body ext self k of
           (self', Some e) \<Rightarrow> (self', Some e)
         | (self', None) \<Rightarrow> simulate_loop ext self' (k + 1) n_time_steps)
      else (self, None))"
  by pat_completeness auto
termination
  by (relation "measure (\<lambda>(ext, self, k, n). nat (n - k))") auto

declare simulate_loop.simps [simp del]

definition simulate :: "'r externals \<Rightarrow> 'r Patient \<Rightarrow> int \<Rightarrow> 'r Patient \<times> py_error option" where
  "simulate ext self n_time_steps = simulate_loop ext self 0 n_time_steps"

subsection \<open>CohortOutcomes\<close>

text \<open>
  Modelled from the spec: the class \<^verbatim>\<open>PathCls.PrevalencePathBatchUpdate\<close> is not among
  the sources. The spec describes the survival curve as the initial size and the list of
  the events, each a time and an increment, ordered by time ascending; two events at the
  same time stay two events. The constructor takes the name, the initial size, the times
  of the changes and the increments, as the code's call gives them.
\<close>

record PrevalencePathBatchUpdate =
  name :: string
  initial_size :: int
  events :: "(real \<times> int) list"

definition PrevalencePathBatchUpdate_init ::
  "string \<Rightarrow> int \<Rightarrow> real list \<Rightarrow> int list \<Rightarrow> PrevalencePathBatchUpdate" where
  "PrevalencePathBatchUpdate_init nm n0 ts incs =
     \<lparr>name = nm, initial_size = n0, events = sort_key fst (zip ts incs)\<rparr>"

text \<open>
  \<^verbatim>\<open>timesToAIDS\<close> receives \<^verbatim>\<open>timeToAIDS\<close> as it is, \<^verbatim>\<open>None\<close> or a float, whenever the
  flag \<^verbatim>\<open>ifDevelopedAIDS\<close> is set; \<^verbatim>\<open>survivalTimes\<close> receives floats only.
\<close>

record CohortOutcomes =
  survivalTimes :: "real list"
  timesToAIDS :: "real option list"
  meanSurvivalTime :: "real option"
  meanTimeToAIDS :: "real option"
  nLivingPatients :: "PrevalencePathBatchUpdate option"

definition CohortOutcomes_init :: CohortOutcomes where
  "CohortOutcomes_init =
     \<lparr>survivalTimes = [], timesToAIDS = [], meanSurvivalTime = None,
      meanTimeToAIDS = None, nLivingPatients = None\<rparr>"

text \<open>The body of the loop over the simulated patients, and the loop.\<close>

definition record_patient :: "CohortOutcomes \<Rightarrow> 'r Patient \<Rightarrow> CohortOutcomes" where
  "record_patient self patient =
     (let self1 = (case survivalTime (stateMonitor patient) of
                     None \<Rightarrow> self
                   | Some t \<Rightarrow> self\<lparr>survivalTimes := survivalTimes self @ [t]\<rparr>)
      in if ifDevelopedAIDS (stateMonitor patient)
         then self1\<lparr>timesToAIDS := timesToAIDS self1 @ [timeToAIDS (stateMonitor patient)]\<rparr>
         else self1)"

fun record_patients :: "CohortOutcomes \<Rightarrow> 'r Patient list \<Rightarrow> CohortOutcomes" where
  "record_patients self [] = self"
| "record_patients self (patient # rest) = record_patients (record_patient self patient) rest"

text \<open>
  \<^verbatim>\<open>sum(xs) / len(xs)\<close>: \<^verbatim>\<open>sum\<close> adds from the left, starting at 0, and raises
  \<^verbatim>\<open>TypeError\<close> at a \<^verbatim>\<open>None\<close>; the division raises \<^verbatim>\<open>ZeroDivisionError\<close> for the empty
  list.
\<close>

fun py_sum :: "real \<Rightarrow> real option list \<Rightarrow> py_error + real" where
  "py_sum acc [] = Inr acc"
| "py_sum acc (None # xs) = Inl TypeError"
| "py_sum acc (Some x # xs) = py_sum (acc + x) xs"

definition py_mean :: "real option list \<Rightarrow> py_error + real" where
  "py_mean xs =
     (case py_sum 0 xs of
        Inl e \<Rightarrow> Inl e
      | Inr s \<Rightarrow> if length xs = 0 then Inl ZeroDivisionError else Inr (s / real (length xs)))"

definition extract_outcomes ::
  "CohortOutcomes \<Rightarrow> 'r Patient list \<Rightarrow> CohortOutcomes \<times> py_error option" where
  "extract_outcomes self simulated_patients =
     (let self1 = record_patients self simulated_patients in
      case py_mean (map Some (survivalTimes self1)) of
        Inl e \<Rightarrow> (self1, Some e)
      | Inr m1 \<Rightarrow>
          (let self2 = self1\<lparr>meanSurvivalTime := Some m1\<rparr> in
           case py_mean (timesToAIDS self2) of
             Inl e \<Rightarrow> (self2, Some e)
           | Inr m2 \<Rightarrow>
               (let self3 = self2\<lparr>meanTimeToAIDS := Some m2\<rparr> in
                (self3\<lparr>nLivingPatients := Some
                    (PrevalencePathBatchUpdate_init ''# of living patients''
                       (int (length simulated_patients))
                       (survivalTimes self3)
                       (replicate (length (survivalTimes self3)) (- 1)))\<rparr>,
                 None))))"

subsection \<open>Cohort\<close>

record 'r Cohort =
  id_Cohort :: int
  patients :: "'r Patient list"
  cohortOutcomes :: CohortOutcomes

text \<open>\<^verbatim>\<open>range(pop_size)\<close> is \<open>[0..pop_size - 1]\<close>, empty for a size below 1.\<close>

definition Cohort_init :: "'r externals \<Rightarrow> int \<Rightarrow> int \<Rightarrow> real list list \<Rightarrow> 'r Cohort" where
  "Cohort_init ext ident pop_size transition_matrix =
     \<lparr>id_Cohort = ident,
      patients = foldl (\<lambda>ps i. ps @ [Patient_init ext (ident * pop_size + i) transition_matrix])
                   [] [0..pop_size - 1],
      cohortOutcomes = CohortOutcomes_init\<rparr>"

text \<open>
  The loop of \<^verbatim>\<open>Cohort.simulate\<close>: each patient is simulated in place; an exception
  leaves the patients after it untouched.
\<close>

fun simulate_patients ::
  "'r externals \<Rightarrow> 'r Patient list \<Rightarrow> int \<Rightarrow> 'r Patient list \<times> py_error option" where
  "simulate_patients ext [] n_time_steps = ([], None)"
| "simulate_patients ext (patient # rest) n_time_steps =
     (case simulate ext patient n_time_steps of
        (patient', Some e) \<Rightarrow> (patient' # rest, Some e)
      | (patient', None) \<Rightarrow>
          (case simulate_patients ext rest n_time_steps of
             (rest', exc) \<Rightarrow> (patient' # rest', exc)))"

definition Cohort_simulate :: "'r externals \<Rightarrow> 'r Cohort \<Rightarrow> int \<Rightarrow> 'r Cohort \<times> py_error option" where
  "Cohort_simulate ext self n_time_steps =
     (case simulate_patients ext (patients self) n_time_steps of
        (ps, Some e) \<Rightarrow> (self\<lparr>patients := ps\<rparr>, Some e)
      | (ps, None) \<Rightarrow>
          (case extract_outcomes (cohortOutcomes self) ps of
             (outcomes, exc) \<Rightarrow> (self\<lparr>patients := ps, cohortOutcomes := outcomes\<rparr>, exc)))"

text \<open>
  The run of one patient on its own: the monitor of a patient created with the
  identifier \<open>seed\<close> and simulated with horizon \<open>n\<close>, and the exception of the run.
\<close>

definition patient_outcome ::
  "'r externals \<Rightarrow> int \<Rightarrow> real list list \<Rightarrow> int \<Rightarrow> PatientStateMonitor \<times> py_error option" where
  "patient_outcome ext seed transition_matrix n =
     (case simulate ext (Patient_init ext seed transition_matrix) n of
        (patient, exc) \<Rightarrow> (stateMonitor patient, exc))"

subsection \<open>An instance of the parameters, to run the model\<close>

text \<open>
  Three health states with the values 0, 1 and 2. The generator's state is a counter that
  starts at the seed; its draws alternate between 1/4 and 3/4. The sampler returns the
  first index whose cumulative probability reaches the draw, the last index when none
  does.
\<close>

fun ex_value :: "HealthState \<Rightarrow> int" where
  "ex_value CD4_200to500 = 0"
| "ex_value AIDS = 1"
| "ex_value HIV_DEATH = 2"
| "ex_value (Other i) = 3 + int i"

definition ex_call :: "int \<Rightarrow> py_error + HealthState" where
  "ex_call i =
     (if i = 0 then Inr CD4_200to500 else if i = 1 then Inr AIDS
      else if i = 2 then Inr HIV_DEATH else Inl ValueError)"

definition ex_draw :: "nat \<Rightarrow> real" where
  "ex_draw c = (if even c then 1/4 else 3/4)"

fun ex_pick :: "real \<Rightarrow> real list \<Rightarrow> int \<Rightarrow> real \<Rightarrow> int" where
  "ex_pick acc [] j u = j - 1"
| "ex_pick acc (p # ps) j u = (if u \<le> acc + p then j else ex_pick (acc + p) ps (j + 1) u)"

definition ex_sample :: "real list \<Rightarrow> nat \<Rightarrow> nat \<times> (py_error + int)" where
  "ex_sample probabilities c =
     (if probabilities = [] then (c, Inl LibraryError)
      else (Suc c, Inr (ex_pick 0 probabilities 0 (ex_draw c))))"

definition ex_ext :: "nat externals" where
  "ex_ext = \<lparr>RNG = nat, Empirical_sample = ex_sample, HealthState_value = ex_value,
             HealthState_call = ex_call\<rparr>"

text \<open>
  Transition matrices for the runs below. In \<open>ex_progress\<close> a patient in the first state
  stays or develops AIDS with probability 1/2 each, and dies the step after AIDS. In
  \<open>ex_relapse\<close> a patient alternates between the first state and AIDS. \<open>ex_identity\<close>
  keeps every state; \<open>ex_fatal\<close> leads to death from every state; in \<open>ex_decline\<close> the
  first state leads to AIDS and AIDS to death.
\<close>

definition ex_progress :: "real list list" where
  "ex_progress = [[1/2, 1/2, 0], [0, 0, 1], [0, 0, 1]]"

definition ex_relapse :: "real list list" where
  "ex_relapse = [[0, 1, 0], [1, 0, 0], [0, 0, 1]]"

definition ex_identity :: "real list list" where
  "ex_identity = [[1, 0, 0], [0, 1, 0], [0, 0, 1]]"

definition ex_fatal :: "real list list" where
  "ex_fatal = [[0, 0, 1], [0, 0, 1], [0, 0, 1]]"


section \<open>Properties\<close>

subsection \<open>Unfolding the model on the instance\<close>

lemmas ex_defs = ex_ext_def ex_sample_def ex_draw_def ex_call_def
lemmas run_defs = simulate_def Patient_init_def PatientStateMonitor_init_def get_if_alive_def
  simulate_body_def py_getitem_def update_def

subsection \<open>The monitor\<close>

lemma update_dead: "currentState self = HIV_DEATH \<Longrightarrow> update self t s = self"
  by (simp add: update_def)

lemma update_fields:
  "currentState self \<noteq> HIV_DEATH \<Longrightarrow>
   update self t s =
     \<lparr>currentState = s,
      survivalTime = (if s = HIV_DEATH then Some (of_int t + 1/2) else survivalTime self),
      timeToAIDS = (if currentState self \<noteq> AIDS \<and> s = AIDS then Some (of_int t + 1/2)
                    else timeToAIDS self),
      ifDevelopedAIDS = (if currentState self \<noteq> AIDS \<and> s = AIDS then True
                         else ifDevelopedAIDS self)\<rparr>"
  by (simp add: update_def Let_def)

text \<open>
  C1. A call \<open>update self t s\<close> on a monitor that is not in the terminal state sets
  \<open>survivalTime\<close> to \<open>t + 0.5\<close> if \<open>s\<close> is the terminal state, then sets
  \<open>ifDevelopedAIDS\<close> and \<open>timeToAIDS\<close> to true and \<open>t + 0.5\<close> if the monitor's state
  (still the old one) is not AIDS and \<open>s\<close> is AIDS, and at last sets \<open>currentState\<close> to
  \<open>s\<close>; every field a step does not assign keeps its value.
\<close>

theorem update_alive_in_order:
  assumes "currentState self \<noteq> HIV_DEATH"
  shows "update self t s =
     \<lparr>currentState = s,
      survivalTime = (if s = HIV_DEATH then Some (of_int t + 1/2) else survivalTime self),
      timeToAIDS = (if currentState self \<noteq> AIDS \<and> s = AIDS then Some (of_int t + 1/2)
                    else timeToAIDS self),
      ifDevelopedAIDS = (if currentState self \<noteq> AIDS \<and> s = AIDS then True
                         else ifDevelopedAIDS self)\<rparr>"
proof -
  let ?self1 = "if s = HIV_DEATH then self\<lparr>survivalTime := Some (of_int t + 1/2)\<rparr> else self"
  have state1: "currentState ?self1 = currentState self"
    by simp
  have "update self t s =
      (if currentState self \<noteq> AIDS \<and> s = AIDS
       then ?self1\<lparr>ifDevelopedAIDS := True, timeToAIDS := Some (of_int t + 1/2)\<rparr>
       else ?self1)\<lparr>currentState := s\<rparr>"
    using assms unfolding update_def Let_def state1 by simp
  then show ?thesis
    by simp
qed

theorem update_alive_in_order_witness:
  "currentState PatientStateMonitor_init \<noteq> HIV_DEATH \<and>
   update PatientStateMonitor_init 4 AIDS =
     \<lparr>currentState = AIDS, survivalTime = None, timeToAIDS = Some (9/2),
      ifDevelopedAIDS = True\<rparr> \<and>
   update (update PatientStateMonitor_init 4 AIDS) 5 HIV_DEATH =
     \<lparr>currentState = HIV_DEATH, survivalTime = Some (11/2), timeToAIDS = Some (9/2),
      ifDevelopedAIDS = True\<rparr>"
proof -
  have alive: "currentState PatientStateMonitor_init \<noteq> HIV_DEATH"
    by (simp add: PatientStateMonitor_init_def)
  have first: "update PatientStateMonitor_init 4 AIDS =
     \<lparr>currentState = AIDS, survivalTime = None, timeToAIDS = Some (9/2),
      ifDevelopedAIDS = True\<rparr>"
    using update_alive_in_order [OF alive, of 4 AIDS]
    by (simp add: PatientStateMonitor_init_def)
  have "currentState (update PatientStateMonitor_init 4 AIDS) \<noteq> HIV_DEATH"
    by (simp add: first)
  from update_alive_in_order [OF this, of 5 HIV_DEATH]
  have "update (update PatientStateMonitor_init 4 AIDS) 5 HIV_DEATH =
     \<lparr>currentState = HIV_DEATH, survivalTime = Some (11/2), timeToAIDS = Some (9/2),
      ifDevelopedAIDS = True\<rparr>"
    by (simp add: first)
  with alive first show ?thesis
    by simp
qed


subsection \<open>The loop of a patient and the terminal state\<close>

lemma simulate_body_raises:
  "simulate_body ext self k = (self', Some e) \<Longrightarrow> stateMonitor self' = stateMonitor self"
  by (auto simp: simulate_body_def split: sum.splits prod.splits)

lemma simulate_body_returns:
  "simulate_body ext self k = (self', None) \<Longrightarrow>
   \<exists>s. stateMonitor self' = update (stateMonitor self) k s"
  by (auto simp: simulate_body_def split: sum.splits prod.splits)

lemma simulate_loop_dead:
  "currentState (stateMonitor self) = HIV_DEATH \<Longrightarrow> simulate_loop ext self k n = (self, None)"
  by (simp add: simulate_loop.simps get_if_alive_def)

lemma simulate_loop_extend:
  "simulate_loop ext self k n = (self', exc) \<Longrightarrow>
   currentState (stateMonitor self') = HIV_DEATH \<Longrightarrow> n \<le> n' \<Longrightarrow>
   simulate_loop ext self k n' = (self', exc)"
proof (induction ext self k n rule: simulate_loop.induct)
  case (1 ext self k n)
  show ?case
  proof (cases "get_if_alive (stateMonitor self) \<and> k < n")
    case False
    with "1.prems" have "self' = self" "exc = None"
      by (simp_all add: simulate_loop.simps [of ext self k n])
    with "1.prems" show ?thesis
      by (simp add: simulate_loop_dead)
  next
    case True
    obtain self1 r where body: "simulate_body ext self k = (self1, r)"
      by (cases "simulate_body ext self k")
    show ?thesis
    proof (cases r)
      case (Some e)
      with True body "1.prems" have "self' = self1"
        by (simp add: simulate_loop.simps [of ext self k n])
      with Some body have "stateMonitor self' = stateMonitor self"
        by (simp add: simulate_body_raises)
      with True "1.prems" show ?thesis
        by (simp add: get_if_alive_def)
    next
      case None
      with True body "1.prems" have "simulate_loop ext self1 (k + 1) n = (self', exc)"
        by (simp add: simulate_loop.simps [of ext self k n])
      then have "simulate_loop ext self1 (k + 1) n' = (self', exc)"
        using "1.IH" [OF True body [symmetric] None] "1.prems" by blast
      with True body None "1.prems" show ?thesis
        by (simp add: simulate_loop.simps [of ext self k n'])
    qed
  qed
qed


text \<open>
  C2. Let a run of the loop of \<open>simulate\<close> with horizon \<open>n\<close> end with the patient in the
  terminal state. Then the run with any longer horizon \<open>n'\<close> ends with the same patient
  (the same monitor and the same generator, so no further draw was made) and the same
  outcome; the loop entered again with this patient at any step leaves it as it is; and
  any \<open>update\<close> call on its monitor leaves the monitor as it is.
\<close>

theorem terminal_state_frozen:
  assumes "simulate_loop ext self k n = (self', exc)"
    and "currentState (stateMonitor self') = HIV_DEATH"
    and "n \<le> n'"
  shows "simulate_loop ext self k n' = (self', exc) \<and>
         simulate_loop ext self' k' n' = (self', None) \<and>
         update (stateMonitor self') t s = stateMonitor self'"
proof (intro conjI)
  show "simulate_loop ext self k n' = (self', exc)"
    using assms by (rule simulate_loop_extend)
  show "simulate_loop ext self' k' n' = (self', None)"
    using assms(2) by (rule simulate_loop_dead)
  show "update (stateMonitor self') t s = stateMonitor self'"
    using assms(2) by (rule update_dead)
qed

lemma ex_run_fatal_1:
  "simulate_loop ex_ext (Patient_init ex_ext 0 ex_fatal) 0 1 =
     (\<lparr>id_Patient = 0, rng = 1, tranProbMatrix = ex_fatal,
       stateMonitor = \<lparr>currentState = HIV_DEATH, survivalTime = Some (1/2),
         timeToAIDS = None, ifDevelopedAIDS = False\<rparr>\<rparr>, None)"
  by (simp add: run_defs ex_defs simulate_loop.simps ex_fatal_def)

theorem terminal_state_frozen_witness:
  "simulate_loop ex_ext (Patient_init ex_ext 0 ex_fatal) 0 1 =
     (\<lparr>id_Patient = 0, rng = 1, tranProbMatrix = ex_fatal,
       stateMonitor = \<lparr>currentState = HIV_DEATH, survivalTime = Some (1/2),
         timeToAIDS = None, ifDevelopedAIDS = False\<rparr>\<rparr>, None) \<and>
   (1::int) \<le> 10 \<and>
   simulate_loop ex_ext (Patient_init ex_ext 0 ex_fatal) 0 10 =
     (\<lparr>id_Patient = 0, rng = 1, tranProbMatrix = ex_fatal,
       stateMonitor = \<lparr>currentState = HIV_DEATH, survivalTime = Some (1/2),
         timeToAIDS = None, ifDevelopedAIDS = False\<rparr>\<rparr>, None) \<and>
   update \<lparr>currentState = HIV_DEATH, survivalTime = Some (1/2),
         timeToAIDS = None, ifDevelopedAIDS = False\<rparr> 7 AIDS =
     \<lparr>currentState = HIV_DEATH, survivalTime = Some (1/2),
         timeToAIDS = None, ifDevelopedAIDS = False\<rparr>"
  using terminal_state_frozen [OF ex_run_fatal_1, of 10 1 7 AIDS] ex_run_fatal_1
  by simp

subsection \<open>Reachable monitors\<close>

lemma update_flag_iff:
  "ifDevelopedAIDS self = (timeToAIDS self \<noteq> None) \<Longrightarrow>
   ifDevelopedAIDS (update self t s) = (timeToAIDS (update self t s) \<noteq> None)"
  by (simp add: update_def Let_def)

lemma updates_flag_iff:
  "ifDevelopedAIDS self = (timeToAIDS self \<noteq> None) \<Longrightarrow>
   ifDevelopedAIDS (updates self calls) = (timeToAIDS (updates self calls) \<noteq> None)"
  unfolding updates_def
proof (induction calls arbitrary: self)
  case Nil
  then show ?case by simp
next
  case (Cons c calls)
  obtain t s where c: "c = (t, s)"
    by (cases c)
  from Cons.prems have "ifDevelopedAIDS (update self t s) = (timeToAIDS (update self t s) \<noteq> None)"
    by (rule update_flag_iff)
  from Cons.IH [OF this] c show ?case
    by simp
qed

text \<open>
  C10. In a new monitor and in the monitor after any sequence of \<open>update\<close> calls, the
  flag \<open>ifDevelopedAIDS\<close> is true exactly when \<open>timeToAIDS\<close> is set.
\<close>

theorem developed_iff_time_set:
  "ifDevelopedAIDS (updates PatientStateMonitor_init calls) =
     (timeToAIDS (updates PatientStateMonitor_init calls) \<noteq> None)"
  by (rule updates_flag_iff) (simp add: PatientStateMonitor_init_def)

subsection \<open>The initial state\<close>

text \<open>
  C8, as the code has it. The state a patient starts in is the constant
  \<open>CD4_200to500\<close> that the monitor's constructor assigns: the constructor takes no
  argument, and the identifier and the matrix a caller gives to a patient do not change
  it.
\<close>

theorem initial_state_constant:
  "currentState PatientStateMonitor_init = CD4_200to500 \<and>
   currentState (stateMonitor (Patient_init ext ident transition_matrix)) = CD4_200to500"
  by (simp add: Patient_init_def PatientStateMonitor_init_def)

text \<open>
  C8 as stated fails: no identifier and no matrix given to the constructor of a patient
  makes it start in another state than \<open>CD4_200to500\<close>, in AIDS for one.
\<close>

theorem initial_state_supplied_counterexample:
  "currentState (stateMonitor (Patient_init ex_ext 7 ex_relapse)) = CD4_200to500 \<and>
   \<not> (\<exists>ident transition_matrix.
        currentState (stateMonitor (Patient_init ex_ext ident transition_matrix)) = AIDS)"
  by (simp add: Patient_init_def PatientStateMonitor_init_def)

subsection \<open>Times recorded by a run\<close>

lemma simulate_loop_survival:
  "simulate_loop ext self k n = (self', exc) \<Longrightarrow>
   survivalTime (stateMonitor self) = None \<Longrightarrow>
   survivalTime (stateMonitor self') = Some t \<Longrightarrow>
   \<exists>j. k \<le> j \<and> j < n \<and> t = of_int j + 1/2"
proof (induction ext self k n rule: simulate_loop.induct)
  case (1 ext self k n)
  show ?case
  proof (cases "get_if_alive (stateMonitor self) \<and> k < n")
    case False
    with "1.prems"(1) have "self' = self"
      by (simp add: simulate_loop.simps [of ext self k n])
    with "1.prems" show ?thesis
      by simp
  next
    case True
    then have alive: "currentState (stateMonitor self) \<noteq> HIV_DEATH" and less: "k < n"
      by (simp_all add: get_if_alive_def split: if_splits)
    obtain self1 r where body: "simulate_body ext self k = (self1, r)"
      by (cases "simulate_body ext self k")
    show ?thesis
    proof (cases r)
      case (Some e)
      with True body "1.prems"(1) have "self' = self1"
        by (simp add: simulate_loop.simps [of ext self k n])
      with Some body have "stateMonitor self' = stateMonitor self"
        by (simp add: simulate_body_raises)
      with "1.prems" show ?thesis
        by simp
    next
      case None
      with True body "1.prems"(1) have rest: "simulate_loop ext self1 (k + 1) n = (self', exc)"
        by (simp add: simulate_loop.simps [of ext self k n])
      from body None obtain s where s: "stateMonitor self1 = update (stateMonitor self) k s"
        using simulate_body_returns by blast
      show ?thesis
      proof (cases "s = HIV_DEATH")
        case True
        with s alive have dead: "currentState (stateMonitor self1) = HIV_DEATH"
          and time: "survivalTime (stateMonitor self1) = Some (of_int k + 1/2)"
          by (simp_all add: update_fields)
        from dead rest have "self' = self1"
          by (simp add: simulate_loop_dead)
        with time "1.prems"(3) have "t = of_int k + 1/2"
          by simp
        with less show ?thesis
          by auto
      next
        case False
        with s alive "1.prems"(2) have "survivalTime (stateMonitor self1) = None"
          by (simp add: update_fields)
        from "1.IH" [OF \<open>get_if_alive (stateMonitor self) \<and> k < n\<close> body [symmetric] None rest this "1.prems"(3)]
        obtain j where "k + 1 \<le> j" "j < n" "t = of_int j + 1/2"
          by blast
        then show ?thesis
          by (intro exI [of _ j]) simp
      qed
    qed
  qed
qed

lemma simulate_loop_order:
  "simulate_loop ext self k n = (self', exc) \<Longrightarrow>
   currentState (stateMonitor self) \<noteq> HIV_DEATH \<Longrightarrow>
   survivalTime (stateMonitor self) = None \<Longrightarrow>
   (\<And>b. timeToAIDS (stateMonitor self) = Some b \<Longrightarrow> b < of_int k) \<Longrightarrow>
   timeToAIDS (stateMonitor self') = Some a \<Longrightarrow>
   survivalTime (stateMonitor self') = Some t \<Longrightarrow>
   a < t"
proof (induction ext self k n rule: simulate_loop.induct)
  case (1 ext self k n)
  note alive = "1.prems"(2)
  show ?case
  proof (cases "get_if_alive (stateMonitor self) \<and> k < n")
    case False
    with "1.prems"(1) have "self' = self"
      by (simp add: simulate_loop.simps [of ext self k n])
    with "1.prems" show ?thesis
      by simp
  next
    case True
    obtain self1 r where body: "simulate_body ext self k = (self1, r)"
      by (cases "simulate_body ext self k")
    show ?thesis
    proof (cases r)
      case (Some e)
      with True body "1.prems"(1) have "self' = self1"
        by (simp add: simulate_loop.simps [of ext self k n])
      with Some body have "stateMonitor self' = stateMonitor self"
        by (simp add: simulate_body_raises)
      with "1.prems" show ?thesis
        by simp
    next
      case None
      with True body "1.prems"(1) have rest: "simulate_loop ext self1 (k + 1) n = (self', exc)"
        by (simp add: simulate_loop.simps [of ext self k n])
      from body None obtain s where s: "stateMonitor self1 = update (stateMonitor self) k s"
        using simulate_body_returns by blast
      show ?thesis
      proof (cases "s = HIV_DEATH")
        case True
        with s alive have dead: "currentState (stateMonitor self1) = HIV_DEATH"
          and time: "survivalTime (stateMonitor self1) = Some (of_int k + 1/2)"
          and same: "timeToAIDS (stateMonitor self1) = timeToAIDS (stateMonitor self)"
          by (simp_all add: update_fields)
        from dead rest have "self' = self1"
          by (simp add: simulate_loop_dead)
        with time same "1.prems"(5,6) have "t = of_int k + 1/2"
          and "timeToAIDS (stateMonitor self) = Some a"
          by simp_all
        with "1.prems"(4) [of a] show ?thesis
          by simp
      next
        case False
        with s alive "1.prems"(3) have alive1: "currentState (stateMonitor self1) \<noteq> HIV_DEATH"
          and none1: "survivalTime (stateMonitor self1) = None"
          by (simp_all add: update_fields)
        have bound1: "b < of_int (k + 1)" if "timeToAIDS (stateMonitor self1) = Some b" for b
        proof (cases "currentState (stateMonitor self) \<noteq> AIDS \<and> s = AIDS")
          case True
          with that s alive have "b = of_int k + 1/2"
            by (simp add: update_fields)
          then show ?thesis
            by simp
        next
          case False
          with that s alive have "timeToAIDS (stateMonitor self) = Some b"
            by (simp add: update_fields)
          from "1.prems"(4) [OF this] show ?thesis
            by simp
        qed
        from "1.IH" [OF \<open>get_if_alive (stateMonitor self) \<and> k < n\<close> body [symmetric] None rest alive1 none1 bound1 "1.prems"(5,6)]
        show ?thesis .
      qed
    qed
  qed
qed

text \<open>
  C4. When the run of a new patient with horizon \<open>n\<close> ends, by return or by an
  exception, with \<open>survivalTime\<close> set, the survival time is \<open>j + 0.5\<close> for a step \<open>j\<close>
  with \<open>0 \<le> j \<le> n - 1\<close>.
\<close>

theorem survival_time_in_range:
  assumes "survivalTime (stateMonitor (fst (simulate ext (Patient_init ext ident tm) n))) = Some t"
  shows "\<exists>j. 0 \<le> j \<and> j \<le> n - 1 \<and> t = of_int j + 1/2"
proof -
  obtain self' exc where run: "simulate_loop ext (Patient_init ext ident tm) 0 n = (self', exc)"
    by (cases "simulate_loop ext (Patient_init ext ident tm) 0 n")
  have "survivalTime (stateMonitor (Patient_init ext ident tm)) = None"
    by (simp add: Patient_init_def PatientStateMonitor_init_def)
  moreover from assms run have "survivalTime (stateMonitor self') = Some t"
    by (simp add: simulate_def)
  ultimately obtain j where "0 \<le> j" "j < n" "t = of_int j + 1/2"
    using simulate_loop_survival [OF run] by blast
  then show ?thesis
    by (intro exI [of _ j]) simp
qed

lemma ex_run_progress_1:
  "simulate ex_ext (Patient_init ex_ext 1 ex_progress) 5 =
     (\<lparr>id_Patient = 1, rng = 3, tranProbMatrix = ex_progress,
       stateMonitor = \<lparr>currentState = HIV_DEATH, survivalTime = Some (3/2),
         timeToAIDS = Some (1/2), ifDevelopedAIDS = True\<rparr>\<rparr>, None)"
  by (simp add: run_defs ex_defs simulate_loop.simps ex_progress_def)

theorem survival_time_in_range_witness:
  "survivalTime (stateMonitor (fst (simulate ex_ext (Patient_init ex_ext 1 ex_progress) 5))) =
     Some (3/2) \<and>
   (\<exists>j::int. 0 \<le> j \<and> j \<le> 5 - 1 \<and> (3/2::real) = of_int j + 1/2)"
proof -
  have set: "survivalTime (stateMonitor (fst (simulate ex_ext (Patient_init ex_ext 1 ex_progress) 5))) =
     Some (3/2)"
    by (simp add: ex_run_progress_1)
  from survival_time_in_range [OF set] set show ?thesis
    by simp
qed


text \<open>
  C5, as the code has it. An \<open>update\<close> call assigns \<open>timeToAIDS\<close> exactly when the
  monitor is in neither the terminal state nor AIDS and the new state is AIDS, so once
  for every entry into AIDS from another state; and when the run of a new patient ends
  with both \<open>timeToAIDS\<close> and \<open>survivalTime\<close> set, the time to AIDS is at most (indeed
  below) the survival time.
\<close>

theorem time_to_AIDS_assigned_and_ordered:
  "timeToAIDS (update self k s) =
     (if currentState self \<noteq> HIV_DEATH \<and> currentState self \<noteq> AIDS \<and> s = AIDS
      then Some (of_int k + 1/2) else timeToAIDS self) \<and>
   (timeToAIDS (stateMonitor (fst (simulate ext (Patient_init ext ident tm) n))) = Some a \<longrightarrow>
    survivalTime (stateMonitor (fst (simulate ext (Patient_init ext ident tm) n))) = Some t \<longrightarrow>
    a \<le> t \<and> a < t)"
proof (intro conjI impI)
  show "timeToAIDS (update self k s) =
     (if currentState self \<noteq> HIV_DEATH \<and> currentState self \<noteq> AIDS \<and> s = AIDS
      then Some (of_int k + 1/2) else timeToAIDS self)"
    by (simp add: update_def Let_def)
next
  assume a: "timeToAIDS (stateMonitor (fst (simulate ext (Patient_init ext ident tm) n))) = Some a"
    and t: "survivalTime (stateMonitor (fst (simulate ext (Patient_init ext ident tm) n))) = Some t"
  obtain self' exc where run: "simulate_loop ext (Patient_init ext ident tm) 0 n = (self', exc)"
    by (cases "simulate_loop ext (Patient_init ext ident tm) 0 n")
  have new: "currentState (stateMonitor (Patient_init ext ident tm)) \<noteq> HIV_DEATH"
    "survivalTime (stateMonitor (Patient_init ext ident tm)) = None"
    "\<And>b. timeToAIDS (stateMonitor (Patient_init ext ident tm)) = Some b \<Longrightarrow> b < of_int 0"
    by (simp_all add: Patient_init_def PatientStateMonitor_init_def)
  from a t run have "timeToAIDS (stateMonitor self') = Some a"
    and "survivalTime (stateMonitor self') = Some t"
    by (simp_all add: simulate_def)
  with simulate_loop_order [OF run new] show less: "a < t"
    by blast
  then show "a \<le> t"
    by simp
qed

theorem time_to_AIDS_assigned_and_ordered_witness:
  "timeToAIDS (update PatientStateMonitor_init 3 AIDS) = Some (7/2) \<and>
   timeToAIDS (stateMonitor (fst (simulate ex_ext (Patient_init ex_ext 1 ex_progress) 5))) =
     Some (1/2) \<and>
   survivalTime (stateMonitor (fst (simulate ex_ext (Patient_init ex_ext 1 ex_progress) 5))) =
     Some (3/2) \<and>
   (1/2::real) \<le> 3/2"
proof -
  have a: "timeToAIDS (stateMonitor (fst (simulate ex_ext (Patient_init ex_ext 1 ex_progress) 5))) =
     Some (1/2)"
    and t: "survivalTime (stateMonitor (fst (simulate ex_ext (Patient_init ex_ext 1 ex_progress) 5))) =
     Some (3/2)"
    by (simp_all add: ex_run_progress_1)
  note inst = time_to_AIDS_assigned_and_ordered
    [of PatientStateMonitor_init 3 AIDS ex_ext 1 ex_progress 5 "1/2" "3/2"]
  from inst have "timeToAIDS (update PatientStateMonitor_init 3 AIDS) = Some (7/2)"
    by (simp add: PatientStateMonitor_init_def)
  moreover from inst a t have "(1/2::real) \<le> 3/2"
    by blast
  ultimately show ?thesis
    using a t by simp
qed

text \<open>
  C5 as stated fails. With the matrix \<open>ex_relapse\<close> the run of patient 0 makes the
  calls \<open>update 0 AIDS\<close>, \<open>update 1 CD4_200to500\<close>, \<open>update 2 AIDS\<close>: the first assigns
  0.5 to \<open>timeToAIDS\<close> (the monitor of the run with horizon 1), the third assigns 2.5
  (the monitor of the run with horizon 3).
\<close>

lemma ex_run_relapse_1:
  "simulate ex_ext (Patient_init ex_ext 0 ex_relapse) 1 =
     (\<lparr>id_Patient = 0, rng = 1, tranProbMatrix = ex_relapse,
       stateMonitor = \<lparr>currentState = AIDS, survivalTime = None,
         timeToAIDS = Some (1/2), ifDevelopedAIDS = True\<rparr>\<rparr>, None)"
  by (simp add: run_defs ex_defs simulate_loop.simps ex_relapse_def)

lemma ex_run_relapse_3:
  "simulate ex_ext (Patient_init ex_ext 0 ex_relapse) 3 =
     (\<lparr>id_Patient = 0, rng = 3, tranProbMatrix = ex_relapse,
       stateMonitor = \<lparr>currentState = AIDS, survivalTime = None,
         timeToAIDS = Some (5/2), ifDevelopedAIDS = True\<rparr>\<rparr>, None)"
  by (simp add: run_defs ex_defs simulate_loop.simps ex_relapse_def)

theorem time_to_AIDS_once_counterexample:
  "stateMonitor (fst (simulate ex_ext (Patient_init ex_ext 0 ex_relapse) 1)) =
     updates PatientStateMonitor_init [(0, AIDS)] \<and>
   timeToAIDS (updates PatientStateMonitor_init [(0, AIDS)]) = Some (1/2) \<and>
   stateMonitor (fst (simulate ex_ext (Patient_init ex_ext 0 ex_relapse) 3)) =
     updates PatientStateMonitor_init [(0, AIDS), (1, CD4_200to500), (2, AIDS)] \<and>
   timeToAIDS (updates PatientStateMonitor_init [(0, AIDS), (1, CD4_200to500), (2, AIDS)]) =
     Some (5/2)"
  by (simp add: ex_run_relapse_1 ex_run_relapse_3 updates_def update_def
      PatientStateMonitor_init_def)

subsection \<open>Construction of a cohort\<close>

lemma foldl_append_map: "foldl (\<lambda>ps i. ps @ [f i]) acc xs = acc @ map f xs"
  by (induction xs arbitrary: acc) simp_all

lemma Cohort_init_patients:
  "patients (Cohort_init ext c N tm) = map (\<lambda>i. Patient_init ext (c * N + i) tm) [0..N - 1]"
  by (simp add: Cohort_init_def foldl_append_map)

lemma Cohort_init_ids:
  "id_Patient ` set (patients (Cohort_init ext c N tm)) = (\<lambda>i. c * N + i) ` {0..N - 1}"
  by (simp add: Cohort_init_patients image_image Patient_init_def)

lemma ids_differ:
  fixes c c' N i j :: int
  assumes "c < c'" and "0 \<le> i" and "i < N" and "0 \<le> j"
  shows "c * N + i \<noteq> c' * N + j"
proof -
  from assms have "0 \<le> N"
    by simp
  with assms(1) have "(c + 1) * N \<le> c' * N"
    by (intro mult_right_mono) simp_all
  then have "c * N + N \<le> c' * N"
    by (simp add: algebra_simps)
  with assms show ?thesis
    by linarith
qed

lemma ids_disjoint:
  fixes c c' N :: int
  assumes "c \<noteq> c'"
  shows "(\<lambda>i. c * N + i) ` {0..N - 1} \<inter> (\<lambda>i. c' * N + i) ` {0..N - 1} = {}"
proof (rule ccontr)
  assume "(\<lambda>i. c * N + i) ` {0..N - 1} \<inter> (\<lambda>i. c' * N + i) ` {0..N - 1} \<noteq> {}"
  then obtain x where "x \<in> (\<lambda>i. c * N + i) ` {0..N - 1}" and "x \<in> (\<lambda>i. c' * N + i) ` {0..N - 1}"
    by blast
  then obtain i j where "i \<in> {0..N - 1}" "x = c * N + i" "j \<in> {0..N - 1}" "x = c' * N + j"
    by blast
  then have ij: "0 \<le> i" "i < N" "0 \<le> j" "j < N" and eq: "c * N + i = c' * N + j"
    by simp_all
  from assms consider "c < c'" | "c' < c"
    by linarith
  then show False
  proof cases
    case 1
    from ids_differ [OF this ij(1,2,3)] eq show False
      by simp
  next
    case 2
    from ids_differ [OF this ij(3,4,1)] eq show False
      by simp
  qed
qed

text \<open>
  C9. A cohort constructed with the identifier \<open>c\<close> and the population size \<open>N\<close> (not
  negative) has \<open>N\<close> patients, the \<open>i\<close>-th with the identifier \<open>c * N + i\<close>; and two
  cohorts of the same population size and different identifiers share no patient
  identifier, whatever their matrices.
\<close>

theorem cohort_patient_ids:
  assumes "0 \<le> N"
  shows "length (patients (Cohort_init ext c N tm)) = nat N \<and>
         (\<forall>i. 0 \<le> i \<and> i < N \<longrightarrow>
              id_Patient (patients (Cohort_init ext c N tm) ! nat i) = c * N + i) \<and>
         (c \<noteq> c' \<longrightarrow>
            id_Patient ` set (patients (Cohort_init ext c N tm)) \<inter>
            id_Patient ` set (patients (Cohort_init ext c' N tm')) = {})"
proof (intro conjI allI impI)
  show "length (patients (Cohort_init ext c N tm)) = nat N"
    using assms by (simp add: Cohort_init_patients)
next
  fix i :: int
  assume "0 \<le> i \<and> i < N"
  then have "nat i < length [0..N - 1]" and "[0..N - 1] ! nat i = i"
    by (simp_all add: nth_upto)
  then show "id_Patient (patients (Cohort_init ext c N tm) ! nat i) = c * N + i"
    by (simp add: Cohort_init_patients Patient_init_def)
next
  assume "c \<noteq> c'"
  then show "id_Patient ` set (patients (Cohort_init ext c N tm)) \<inter>
             id_Patient ` set (patients (Cohort_init ext c' N tm')) = {}"
    unfolding Cohort_init_ids by (rule ids_disjoint)
qed

theorem cohort_patient_ids_witness:
  "(0::int) \<le> 2 \<and>
   length (patients (Cohort_init ex_ext 3 2 ex_fatal)) = 2 \<and>
   id_Patient (patients (Cohort_init ex_ext 3 2 ex_fatal) ! 1) = 7 \<and>
   (3::int) \<noteq> 2 \<and>
   id_Patient ` set (patients (Cohort_init ex_ext 3 2 ex_fatal)) \<inter>
   id_Patient ` set (patients (Cohort_init ex_ext 2 2 ex_identity)) = {}"
proof -
  have size: "(0::int) \<le> 2"
    by simp
  note inst = cohort_patient_ids [OF size, of ex_ext 3 ex_fatal 2 ex_identity]
  from inst have "length (patients (Cohort_init ex_ext 3 2 ex_fatal)) = 2"
    by simp
  moreover from inst have "0 \<le> (1::int) \<and> (1::int) < 2 \<longrightarrow>
      id_Patient (patients (Cohort_init ex_ext 3 2 ex_fatal) ! nat 1) = 3 * 2 + 1"
    by blast
  then have "id_Patient (patients (Cohort_init ex_ext 3 2 ex_fatal) ! 1) = 7"
    by simp
  moreover from inst have "id_Patient ` set (patients (Cohort_init ex_ext 3 2 ex_fatal)) \<inter>
      id_Patient ` set (patients (Cohort_init ex_ext 2 2 ex_identity)) = {}"
    by simp
  ultimately show ?thesis
    by simp
qed

subsection \<open>Extraction of the outcomes\<close>

lemma record_patients_survivalTimes:
  "survivalTimes (record_patients self ps) =
     survivalTimes self @
     concat (map (\<lambda>p. case survivalTime (stateMonitor p) of None \<Rightarrow> [] | Some t \<Rightarrow> [t]) ps)"
  by (induction ps arbitrary: self) (auto simp: record_patient_def Let_def split: option.splits)

lemma record_patients_timesToAIDS:
  "timesToAIDS (record_patients self ps) =
     timesToAIDS self @
     map (\<lambda>p. timeToAIDS (stateMonitor p)) (filter (\<lambda>p. ifDevelopedAIDS (stateMonitor p)) ps)"
  by (induction ps arbitrary: self) (auto simp: record_patient_def Let_def split: option.splits)

lemma record_patients_rest:
  "meanSurvivalTime (record_patients self ps) = meanSurvivalTime self \<and>
   meanTimeToAIDS (record_patients self ps) = meanTimeToAIDS self \<and>
   nLivingPatients (record_patients self ps) = nLivingPatients self"
  by (induction ps arbitrary: self) (auto simp: record_patient_def Let_def split: option.splits)

lemma py_sum_floats: "py_sum acc (map Some xs) = Inr (acc + sum_list xs)"
  by (induction xs arbitrary: acc) simp_all

lemma py_mean_floats:
  "py_mean (map Some xs) =
     (if xs = [] then Inl ZeroDivisionError else Inr (sum_list xs / real (length xs)))"
  by (simp add: py_mean_def py_sum_floats)

lemma py_mean_cases:
  "py_mean xs = Inl e \<Longrightarrow> e = TypeError \<or> e = ZeroDivisionError"
proof -
  have "py_sum acc xs = Inl e \<Longrightarrow> e = TypeError" for acc
    by (induction acc xs rule: py_sum.induct) simp_all
  then show "py_mean xs = Inl e \<Longrightarrow> e = TypeError \<or> e = ZeroDivisionError"
    by (auto simp: py_mean_def split: sum.splits if_splits)
qed

lemma extract_outcomes_collections:
  "survivalTimes (fst (extract_outcomes self ps)) = survivalTimes (record_patients self ps) \<and>
   timesToAIDS (fst (extract_outcomes self ps)) = timesToAIDS (record_patients self ps)"
  by (simp add: extract_outcomes_def Let_def split: sum.splits)







text \<open>
  C3, as the code has it. When no survival time is recorded (none before the call and no
  patient with \<open>survivalTime\<close> set), \<open>extract_outcomes\<close> raises \<open>ZeroDivisionError\<close>
  at the mean survival time, from the division by the length 0 itself, and leaves the
  outcomes as the loop over the patients has left them: no mean and no survival curve.
  When no time to AIDS is recorded, it raises \<open>ZeroDivisionError\<close> as well, at the
  latest at the mean time to AIDS, and assigns neither that mean nor the survival curve.
\<close>

theorem empty_outcomes_raise:
  "(survivalTimes self = [] \<and> (\<forall>p \<in> set ps. survivalTime (stateMonitor p) = None) \<longrightarrow>
      extract_outcomes self ps = (record_patients self ps, Some ZeroDivisionError) \<and>
      meanSurvivalTime (record_patients self ps) = meanSurvivalTime self \<and>
      meanTimeToAIDS (record_patients self ps) = meanTimeToAIDS self \<and>
      nLivingPatients (record_patients self ps) = nLivingPatients self) \<and>
   (timesToAIDS self = [] \<and> (\<forall>p \<in> set ps. \<not> ifDevelopedAIDS (stateMonitor p)) \<longrightarrow>
      snd (extract_outcomes self ps) = Some ZeroDivisionError \<and>
      meanTimeToAIDS (fst (extract_outcomes self ps)) = meanTimeToAIDS self \<and>
      nLivingPatients (fst (extract_outcomes self ps)) = nLivingPatients self)"
proof (intro conjI impI)
  assume none: "survivalTimes self = [] \<and> (\<forall>p \<in> set ps. survivalTime (stateMonitor p) = None)"
  then have "survivalTimes (record_patients self ps) = []"
    by (simp add: record_patients_survivalTimes)
  then show "extract_outcomes self ps = (record_patients self ps, Some ZeroDivisionError)"
    by (simp add: extract_outcomes_def Let_def py_mean_floats)
next
  show "meanSurvivalTime (record_patients self ps) = meanSurvivalTime self"
    and "meanTimeToAIDS (record_patients self ps) = meanTimeToAIDS self"
    and "nLivingPatients (record_patients self ps) = nLivingPatients self"
    by (simp_all add: record_patients_rest)
next
  assume none: "timesToAIDS self = [] \<and> (\<forall>p \<in> set ps. \<not> ifDevelopedAIDS (stateMonitor p))"
  then have "filter (\<lambda>p. ifDevelopedAIDS (stateMonitor p)) ps = []"
    by (simp add: filter_empty_conv)
  with none have empty: "timesToAIDS (record_patients self ps) = []"
    by (simp add: record_patients_timesToAIDS)
  then have mean: "py_mean (timesToAIDS (record_patients self ps)) = Inl ZeroDivisionError"
    by (simp add: py_mean_def)
  show "snd (extract_outcomes self ps) = Some ZeroDivisionError"
    by (simp add: extract_outcomes_def Let_def py_mean_floats mean)
  show "meanTimeToAIDS (fst (extract_outcomes self ps)) = meanTimeToAIDS self"
    by (simp add: extract_outcomes_def Let_def py_mean_floats mean record_patients_rest)
  show "nLivingPatients (fst (extract_outcomes self ps)) = nLivingPatients self"
    by (simp add: extract_outcomes_def Let_def py_mean_floats mean record_patients_rest)
qed


lemmas cohort_defs = Cohort_simulate_def Cohort_init_def CohortOutcomes_init_def upto.simps
  extract_outcomes_def record_patient_def py_mean_def

lemma ex_cohort_identity:
  "Cohort_simulate ex_ext (Cohort_init ex_ext 3 2 ex_identity) 20 =
     (\<lparr>id_Cohort = 3,
       patients =
         [\<lparr>id_Patient = 6, rng = 26, tranProbMatrix = ex_identity,
            stateMonitor = PatientStateMonitor_init\<rparr>,
          \<lparr>id_Patient = 7, rng = 27, tranProbMatrix = ex_identity,
            stateMonitor = PatientStateMonitor_init\<rparr>],
       cohortOutcomes = CohortOutcomes_init\<rparr>,
      Some ZeroDivisionError)"
  by (simp add: cohort_defs run_defs ex_defs simulate_loop.simps ex_identity_def)

lemma ex_cohort_fatal:
  "Cohort_simulate ex_ext (Cohort_init ex_ext 0 5 ex_fatal) 10 =
     (\<lparr>id_Cohort = 0,
       patients =
         map (\<lambda>i. \<lparr>id_Patient = i, rng = nat i + 1, tranProbMatrix = ex_fatal,
            stateMonitor = \<lparr>currentState = HIV_DEATH, survivalTime = Some (1/2),
              timeToAIDS = None, ifDevelopedAIDS = False\<rparr>\<rparr>) [0, 1, 2, 3, 4],
       cohortOutcomes =
         \<lparr>survivalTimes = [1/2, 1/2, 1/2, 1/2, 1/2], timesToAIDS = [],
          meanSurvivalTime = Some (1/2), meanTimeToAIDS = None, nLivingPatients = None\<rparr>\<rparr>,
      Some ZeroDivisionError)"
  by (simp add: cohort_defs run_defs ex_defs simulate_loop.simps ex_fatal_def)

lemma ex_run_identity_6:
  "simulate ex_ext (Patient_init ex_ext 6 ex_identity) 20 =
     (\<lparr>id_Patient = 6, rng = 26, tranProbMatrix = ex_identity,
       stateMonitor = PatientStateMonitor_init\<rparr>, None)"
  by (simp add: run_defs ex_defs simulate_loop.simps ex_identity_def)

lemma ex_run_fatal_10:
  "simulate ex_ext (Patient_init ex_ext 0 ex_fatal) 10 =
     (\<lparr>id_Patient = 0, rng = 1, tranProbMatrix = ex_fatal,
       stateMonitor = \<lparr>currentState = HIV_DEATH, survivalTime = Some (1/2),
         timeToAIDS = None, ifDevelopedAIDS = False\<rparr>\<rparr>, None)"
  by (simp add: run_defs ex_defs simulate_loop.simps ex_fatal_def)

lemma ex_run_progress_0:
  "simulate ex_ext (Patient_init ex_ext 0 ex_progress) 5 =
     (\<lparr>id_Patient = 0, rng = 3, tranProbMatrix = ex_progress,
       stateMonitor = \<lparr>currentState = HIV_DEATH, survivalTime = Some (5/2),
         timeToAIDS = Some (3/2), ifDevelopedAIDS = True\<rparr>\<rparr>, None)"
  by (simp add: run_defs ex_defs simulate_loop.simps ex_progress_def)

theorem empty_outcomes_raise_witness:
  "survivalTimes CohortOutcomes_init = [] \<and>
   survivalTime (stateMonitor (fst (simulate ex_ext (Patient_init ex_ext 6 ex_identity) 20))) = None \<and>
   extract_outcomes CohortOutcomes_init
       [fst (simulate ex_ext (Patient_init ex_ext 6 ex_identity) 20)] =
     (CohortOutcomes_init, Some ZeroDivisionError) \<and>
   timesToAIDS CohortOutcomes_init = [] \<and>
   \<not> ifDevelopedAIDS (stateMonitor (fst (simulate ex_ext (Patient_init ex_ext 0 ex_fatal) 10))) \<and>
   snd (extract_outcomes CohortOutcomes_init
       [fst (simulate ex_ext (Patient_init ex_ext 0 ex_fatal) 10)]) = Some ZeroDivisionError \<and>
   nLivingPatients (fst (extract_outcomes CohortOutcomes_init
       [fst (simulate ex_ext (Patient_init ex_ext 0 ex_fatal) 10)])) = None"
proof -
  let ?p = "fst (simulate ex_ext (Patient_init ex_ext 6 ex_identity) 20)"
  let ?q = "fst (simulate ex_ext (Patient_init ex_ext 0 ex_fatal) 10)"
  have new: "survivalTimes CohortOutcomes_init = []" "timesToAIDS CohortOutcomes_init = []"
    "nLivingPatients CohortOutcomes_init = None"
    by (simp_all add: CohortOutcomes_init_def)
  have p: "survivalTime (stateMonitor ?p) = None" "\<not> ifDevelopedAIDS (stateMonitor ?p)"
    by (simp_all add: ex_run_identity_6 PatientStateMonitor_init_def)
  have q: "\<not> ifDevelopedAIDS (stateMonitor ?q)"
    by (simp add: ex_run_fatal_10)
  have "record_patients CohortOutcomes_init [?p] = CohortOutcomes_init"
    using p by (simp add: record_patient_def)
  with empty_outcomes_raise [of CohortOutcomes_init "[?p]"] new p
  have "extract_outcomes CohortOutcomes_init [?p] = (CohortOutcomes_init, Some ZeroDivisionError)"
    by simp
  moreover from empty_outcomes_raise [of CohortOutcomes_init "[?q]"] new q
  have "snd (extract_outcomes CohortOutcomes_init [?q]) = Some ZeroDivisionError \<and>
        nLivingPatients (fst (extract_outcomes CohortOutcomes_init [?q])) = None"
    by simp
  ultimately show ?thesis
    using new p q by simp
qed

text \<open>
  C3 as stated fails. With the identity matrix no patient of the cohort dies within the
  horizon 20, and the simulation of the cohort ends with \<open>ZeroDivisionError\<close>, the mean
  survival time still \<open>None\<close>. With the matrix \<open>ex_fatal\<close> all five patients die at
  once, none has had AIDS, and the simulation ends with \<open>ZeroDivisionError\<close> at the mean
  time to AIDS, before the survival curve.
\<close>

theorem empty_outcomes_guarded_counterexample:
  "snd (Cohort_simulate ex_ext (Cohort_init ex_ext 3 2 ex_identity) 20) =
     Some ZeroDivisionError \<and>
   survivalTimes (cohortOutcomes (fst (Cohort_simulate ex_ext (Cohort_init ex_ext 3 2 ex_identity) 20))) = [] \<and>
   meanSurvivalTime (cohortOutcomes (fst (Cohort_simulate ex_ext (Cohort_init ex_ext 3 2 ex_identity) 20))) = None \<and>
   snd (Cohort_simulate ex_ext (Cohort_init ex_ext 0 5 ex_fatal) 10) = Some ZeroDivisionError \<and>
   timesToAIDS (cohortOutcomes (fst (Cohort_simulate ex_ext (Cohort_init ex_ext 0 5 ex_fatal) 10))) = [] \<and>
   meanTimeToAIDS (cohortOutcomes (fst (Cohort_simulate ex_ext (Cohort_init ex_ext 0 5 ex_fatal) 10))) = None \<and>
   nLivingPatients (cohortOutcomes (fst (Cohort_simulate ex_ext (Cohort_init ex_ext 0 5 ex_fatal) 10))) = None"
  by (simp add: ex_cohort_identity ex_cohort_fatal CohortOutcomes_init_def)






subsection \<open>The outcomes of a cohort, patient by patient\<close>

lemma simulate_patients_returns:
  "\<forall>p \<in> set ps. snd (simulate ext p n) = None \<Longrightarrow>
   simulate_patients ext ps n = (map (\<lambda>p. fst (simulate ext p n)) ps, None)"
proof (induction ps)
  case Nil
  show ?case by simp
next
  case (Cons p ps)
  obtain p' where "simulate ext p n = (p', None)"
    using Cons.prems by (cases "simulate ext p n") simp
  with Cons show ?case
    by simp
qed

lemma simulate_patients_raises:
  "\<exists>p \<in> set ps. snd (simulate ext p n) \<noteq> None \<Longrightarrow> snd (simulate_patients ext ps n) \<noteq> None"
proof (induction ps)
  case Nil
  then show ?case by simp
next
  case (Cons p ps)
  obtain p' r where run: "simulate ext p n = (p', r)"
    by (cases "simulate ext p n")
  show ?case
  proof (cases r)
    case (Some e)
    with run show ?thesis
      by simp
  next
    case None
    with run Cons.prems have "\<exists>q \<in> set ps. snd (simulate ext q n) \<noteq> None"
      by simp
    from Cons.IH [OF this] obtain ps' e where "simulate_patients ext ps n = (ps', Some e)"
      by (cases "simulate_patients ext ps n") auto
    with run None show ?thesis
      by simp
  qed
qed

lemma patient_outcome_simulate:
  "fst (patient_outcome ext seed tm n) = stateMonitor (fst (simulate ext (Patient_init ext seed tm) n))"
  "snd (patient_outcome ext seed tm n) = snd (simulate ext (Patient_init ext seed tm) n)"
  by (simp_all add: patient_outcome_def split: prod.splits)

text \<open>
  C6. The survival times and the times to AIDS that the simulation of a new cohort
  records are determined by the cohort's identifier \<open>c\<close>, its population size \<open>N\<close>, the
  matrix and the horizon: when no patient's run raises, they are the outcomes, in the
  order of creation, of the runs of the patients with the seeds \<open>c * N + i\<close>, each run on
  its own; when a run raises, nothing is recorded. So two simulations with the same four
  arguments record the same two sequences.
\<close>

theorem cohort_outcomes_by_seed:
  "survivalTimes (cohortOutcomes (fst (Cohort_simulate ext (Cohort_init ext c N tm) n))) =
     (if \<forall>i \<in> {0..N - 1}. snd (patient_outcome ext (c * N + i) tm n) = None
      then concat (map (\<lambda>i. case survivalTime (fst (patient_outcome ext (c * N + i) tm n)) of
                               None \<Rightarrow> [] | Some t \<Rightarrow> [t]) [0..N - 1])
      else []) \<and>
   timesToAIDS (cohortOutcomes (fst (Cohort_simulate ext (Cohort_init ext c N tm) n))) =
     (if \<forall>i \<in> {0..N - 1}. snd (patient_outcome ext (c * N + i) tm n) = None
      then map (\<lambda>i. timeToAIDS (fst (patient_outcome ext (c * N + i) tm n)))
             (filter (\<lambda>i. ifDevelopedAIDS (fst (patient_outcome ext (c * N + i) tm n))) [0..N - 1])
      else [])"
proof -
  let ?new = "\<lambda>i. Patient_init ext (c * N + i) tm"
  let ?ps = "map ?new [0..N - 1]"
  let ?C = "Cohort_init ext c N tm"
  have cohort: "patients ?C = ?ps" "cohortOutcomes ?C = CohortOutcomes_init"
    by (simp_all add: Cohort_init_patients) (simp add: Cohort_init_def)
  show ?thesis
  proof (cases "\<forall>i \<in> {0..N - 1}. snd (patient_outcome ext (c * N + i) tm n) = None")
    case True
    then have "\<forall>p \<in> set ?ps. snd (simulate ext p n) = None"
      by (simp add: patient_outcome_simulate)
    then have "simulate_patients ext ?ps n = (map (\<lambda>p. fst (simulate ext p n)) ?ps, None)"
      by (rule simulate_patients_returns)
    then have "cohortOutcomes (fst (Cohort_simulate ext ?C n)) =
        fst (extract_outcomes CohortOutcomes_init (map (\<lambda>p. fst (simulate ext p n)) ?ps))"
      by (simp add: Cohort_simulate_def cohort split: prod.splits)
    with True show ?thesis
      by (simp add: extract_outcomes_collections record_patients_survivalTimes
          record_patients_timesToAIDS CohortOutcomes_init_def patient_outcome_simulate
          filter_map comp_def)
  next
    case False
    then have "\<exists>p \<in> set ?ps. snd (simulate ext p n) \<noteq> None"
      by (simp add: patient_outcome_simulate)
    then have "snd (simulate_patients ext ?ps n) \<noteq> None"
      by (rule simulate_patients_raises)
    then obtain ps' e where "simulate_patients ext ?ps n = (ps', Some e)"
      by (cases "simulate_patients ext ?ps n") auto
    then have "cohortOutcomes (fst (Cohort_simulate ext ?C n)) = CohortOutcomes_init"
      by (simp add: Cohort_simulate_def cohort)
    then show ?thesis
      unfolding if_not_P [OF False] by (simp add: CohortOutcomes_init_def)
  qed
qed

theorem cohort_outcomes_by_seed_witness:
  "snd (patient_outcome ex_ext 0 ex_progress 5) = None \<and>
   snd (patient_outcome ex_ext 1 ex_progress 5) = None \<and>
   survivalTimes (cohortOutcomes (fst (Cohort_simulate ex_ext (Cohort_init ex_ext 0 2 ex_progress) 5))) =
     [5/2, 3/2] \<and>
   timesToAIDS (cohortOutcomes (fst (Cohort_simulate ex_ext (Cohort_init ex_ext 0 2 ex_progress) 5))) =
     [Some (3/2), Some (1/2)]"
proof -
  have runs: "patient_outcome ex_ext 0 ex_progress 5 =
      (\<lparr>currentState = HIV_DEATH, survivalTime = Some (5/2), timeToAIDS = Some (3/2),
        ifDevelopedAIDS = True\<rparr>, None)"
    "patient_outcome ex_ext 1 ex_progress 5 =
      (\<lparr>currentState = HIV_DEATH, survivalTime = Some (3/2), timeToAIDS = Some (1/2),
        ifDevelopedAIDS = True\<rparr>, None)"
    by (simp_all add: patient_outcome_def ex_run_progress_0 ex_run_progress_1)
  have range: "[0..2 - 1] = [0, 1::int]" "{0..2 - 1} = {0, 1::int}"
    by (simp_all add: upto.simps) auto
  from cohort_outcomes_by_seed [of ex_ext 0 2 ex_progress 5] runs show ?thesis
    unfolding range by simp
qed

end
